theory Spec2Isabelle
  imports
    Complex_Main
    "HOL-Library.Char_ord"
    "HOL-Library.List_Lexorder"
    "HOL-Library.Product_Lexorder"
    "HOL-Library.Multiset"
    "HOL-Library.AList"
begin

section \<open>Data model of the taxi dashboard (src/app.py)\<close>

text \<open>
  The dashboard works on pandas data frames. Two views of a frame are used below.
  The loader \<open>load_trip_data\<close> is modelled on an untyped column store, because what it
  does depends on which columns the parquet file has. Everything after the loader
  (the filter, the four aggregators, the sampling step and \<open>main\<close>) reads fixed columns
  of the cleaned frame and is modelled on a list of typed rows, in frame order.
\<close>

subsection \<open>Dates and timestamps\<close>

text \<open>
  A \<open>datetime.date\<close>. Python orders dates as the triples (year, month, day).
\<close>

datatype date = Date (date_year: int) (date_month: int) (date_day: int)

definition date_le :: "date \<Rightarrow> date \<Rightarrow> bool" where
  "date_le a b =
     (date_year a < date_year b \<or>
      (date_year a = date_year b \<and>
       (date_month a < date_month b \<or>
        (date_month a = date_month b \<and> date_day a \<le> date_day b))))"

text \<open>
  A timezone-naive pandas timestamp: a calendar date and the time of day in
  nanoseconds. \<open>dt_date\<close> is the accessor \<open>Series.dt.date\<close> on one value.
\<close>

record timestamp =
  ts_date :: date
  ts_nanos :: nat

definition dt_date :: "timestamp \<Rightarrow> date" where
  "dt_date t = ts_date t"

subsection \<open>Rows of the cleaned trip frame and of the zone lookup\<close>

text \<open>
  One row of the frame that \<open>load_trip_data\<close> returns, with the columns that app.py
  reads. Monetary amounts and distances are float64 in pandas; they are modelled as
  exact rationals. \<open>payment_label\<close> is a plain string: the loader fills every missing
  label with "Other", so the column has no null.
\<close>

record trip =
  tpep_pickup_datetime :: timestamp
  tpep_dropoff_datetime :: timestamp
  PULocationID :: int
  fare_amount :: rat
  total_amount :: rat
  trip_distance :: rat
  trip_duration_minutes :: rat
  pickup_hour :: int
  pickup_day_of_week :: string
  payment_label :: string

text \<open>
  One row of taxi\_zone\_lookup.csv as \<open>pd.read_csv\<close> yields it. A text cell that
  pandas reads as missing (an empty cell, "N/A") is \<open>None\<close>.
\<close>

record zone =
  LocationID :: int
  Zone :: "string option"
  Borough :: "string option"

section \<open>apply\_filters (app.py, lines 48-65)\<close>

text \<open>
  The source builds a boolean mask column by column and indexes the frame with it.
  \<open>series_and\<close> is pandas' \<open>&\<close> on two boolean series of one frame, \<open>boolean_index\<close>
  is \<open>df[mask]\<close>, \<open>isin\<close> is \<open>Series.isin\<close>.
\<close>

definition series_and :: "bool list \<Rightarrow> bool list \<Rightarrow> bool list" where
  "series_and a b = map2 (\<and>) a b"

definition boolean_index :: "'a list \<Rightarrow> bool list \<Rightarrow> 'a list" where
  "boolean_index df msk = map fst (filter snd (zip df msk))"

definition isin :: "'a list \<Rightarrow> 'a list \<Rightarrow> bool list" where
  "isin s vals = map (\<lambda>v. v \<in> set vals) s"

definition apply_filters ::
  "trip list \<Rightarrow> date \<Rightarrow> date \<Rightarrow> int \<Rightarrow> int \<Rightarrow> string list \<Rightarrow> trip list" where
  "apply_filters df start_date end_date hour_min hour_max payment_types =
     (let msk =
            series_and
              (series_and
                (series_and
                  (map (\<lambda>d. date_le start_date d) (map dt_date (map tpep_pickup_datetime df)))
                  (map (\<lambda>d. date_le d end_date) (map dt_date (map tpep_pickup_datetime df))))
                (map (\<lambda>h. hour_min \<le> h) (map pickup_hour df)))
              (map (\<lambda>h. h \<le> hour_max) (map pickup_hour df));
          msk' =
            (if payment_types \<noteq> []
             then series_and msk (isin (map payment_label df) payment_types)
             else msk)
      in boolean_index df msk')"

text \<open>
  The predicate of the specification, in its words: the pickup calendar date lies in
  [start\_date, end\_date], the pickup hour lies in [hour\_min, hour\_max], and the
  label set is empty or contains the record's label.
\<close>

definition passes_criteria ::
  "date \<Rightarrow> date \<Rightarrow> int \<Rightarrow> int \<Rightarrow> string list \<Rightarrow> trip \<Rightarrow> bool" where
  "passes_criteria start_date end_date hour_min hour_max payment_labels r =
     ((date_le start_date (ts_date (tpep_pickup_datetime r)) \<and>
       date_le (ts_date (tpep_pickup_datetime r)) end_date) \<and>
      (hour_min \<le> pickup_hour r \<and> pickup_hour r \<le> hour_max) \<and>
      (payment_labels = [] \<or> payment_label r \<in> set payment_labels))"

text \<open>
  The options of the payment multiselect (app.py, line 172):
  \<open>sorted(df_full["payment_label"].dropna().unique().tolist())\<close>. \<open>unique\<close> keeps the
  first occurrence of each value; \<open>dropna\<close> has nothing to drop in a column of strings.
\<close>

definition unique :: "'a list \<Rightarrow> 'a list" where
  "unique xs = rev (remdups (rev xs))"

definition all_payment_types :: "trip list \<Rightarrow> string list" where
  "all_payment_types df_full = sort (unique (map payment_label df_full))"

section \<open>The aggregators (app.py, lines 70-117)\<close>

text \<open>
  \<open>df.groupby(key).size()\<close>: one entry per distinct key of the frame, keys ascending
  (pandas groups with \<open>sort=True\<close>), with the number of rows of that key.
\<close>

definition groupby_size :: "('r \<Rightarrow> 'k::linorder) \<Rightarrow> 'r list \<Rightarrow> ('k \<times> int) list" where
  "groupby_size key df =
     map (\<lambda>k. (k, int (length (filter (\<lambda>r. key r = k) df)))) (sort (remdups (map key df)))"

text \<open>
  \<open>Series.mean\<close> of a group. A group of \<open>groupby\<close> is never empty, and \<open>main\<close> takes the
  means of the key metrics only after its guard on an empty frame.
\<close>

definition mean :: "rat list \<Rightarrow> rat" where
  "mean xs = sum_list xs / of_nat (length xs)"

subsection \<open>agg\_top\_zones\<close>

record zone_count =
  zc_PULocationID :: int
  zc_trip_count :: int

record merged_row =
  mg_PULocationID :: int
  mg_trip_count :: int
  mg_LocationID :: "int option"
  mg_Zone :: "string option"
  mg_Borough :: "string option"

record top_zone =
  tz_Zone :: "string option"
  tz_Borough :: "string option"
  tz_trip_count :: int

text \<open>
  \<open>zone_counts.merge(zones[...], left_on="PULocationID", right_on="LocationID",
  how="left")\<close>: the rows of the left frame in their order, each paired with every
  zone row of its location id, in the zone table's order; a left row with no such zone
  row is kept once, with nulls in the zone columns.
\<close>

definition merge_left :: "zone_count list \<Rightarrow> zone list \<Rightarrow> merged_row list" where
  "merge_left zone_counts zones =
     concat (map (\<lambda>c.
       (case filter (\<lambda>z. LocationID z = zc_PULocationID c) zones of
          [] \<Rightarrow> [\<lparr>mg_PULocationID = zc_PULocationID c, mg_trip_count = zc_trip_count c,
                  mg_LocationID = None, mg_Zone = None, mg_Borough = None\<rparr>]
        | ms \<Rightarrow> map (\<lambda>z. \<lparr>mg_PULocationID = zc_PULocationID c,
                             mg_trip_count = zc_trip_count c,
                             mg_LocationID = Some (LocationID z),
                             mg_Zone = Zone z, mg_Borough = Borough z\<rparr>) ms)) zone_counts)"

text \<open>
  \<open>DataFrame.nlargest(n, column)\<close> with the default \<open>keep="first"\<close>: the first n rows
  of the frame ordered by the column, largest first, rows of equal value in frame order.
\<close>

definition nlargest :: "nat \<Rightarrow> ('r \<Rightarrow> int) \<Rightarrow> 'r list \<Rightarrow> 'r list" where
  "nlargest n col df = take n (sort_key (\<lambda>r. - col r) df)"

definition agg_top_zones :: "trip list \<Rightarrow> zone list \<Rightarrow> top_zone list" where
  "agg_top_zones df zones =
     (let zone_counts =
            map (\<lambda>(k, n). \<lparr>zc_PULocationID = k, zc_trip_count = n\<rparr>)
              (groupby_size PULocationID df);
          merged = merge_left zone_counts zones
      in map (\<lambda>m. \<lparr>tz_Zone = mg_Zone m, tz_Borough = mg_Borough m,
                     tz_trip_count = mg_trip_count m\<rparr>)
           (nlargest 10 mg_trip_count merged))"

subsection \<open>agg\_fare\_by\_hour\<close>

record fare_by_hour =
  fh_pickup_hour :: int
  avg_fare :: rat

definition agg_fare_by_hour :: "trip list \<Rightarrow> fare_by_hour list" where
  "agg_fare_by_hour df =
     sort_key fh_pickup_hour
       (map (\<lambda>h. \<lparr>fh_pickup_hour = h,
                    avg_fare = mean (map fare_amount (filter (\<lambda>r. pickup_hour r = h) df))\<rparr>)
          (sort (remdups (map pickup_hour df))))"

subsection \<open>agg\_payment\_types\<close>

record payment_count =
  pc_payment_label :: string
  pc_trip_count :: int

text \<open>
  \<open>sort_values("trip_count", ascending=False)\<close>. Rows of equal count are kept in the
  order of the grouped frame here; pandas' default sort does not promise an order
  among them.
\<close>

definition agg_payment_types :: "trip list \<Rightarrow> payment_count list" where
  "agg_payment_types df =
     sort_key (\<lambda>r. - pc_trip_count r)
       (map (\<lambda>(k, n). \<lparr>pc_payment_label = k, pc_trip_count = n\<rparr>)
          (groupby_size payment_label df))"

subsection \<open>agg\_heatmap\<close>

record heatmap_cell =
  hm_pickup_day_of_week :: string
  hm_pickup_hour :: int
  hm_trip_count :: int

definition agg_heatmap :: "trip list \<Rightarrow> heatmap_cell list" where
  "agg_heatmap df =
     map (\<lambda>((d, h), n). \<lparr>hm_pickup_day_of_week = d, hm_pickup_hour = h, hm_trip_count = n\<rparr>)
       (groupby_size (\<lambda>r. (pickup_day_of_week r, pickup_hour r)) df)"

section \<open>The distance sample (app.py, lines 253-254)\<close>

datatype error = KeyError string | ValueError string | IndexError

text \<open>
  \<open>DataFrame.sample(n, random_state)\<close> without replacement. pandas draws
  \<open>choice(len(df), size=n, replace=False)\<close> from a generator and takes the rows at the
  drawn positions, in the drawn order. With an integer \<open>random_state\<close> the generator is a
  fresh \<open>RandomState(seed)\<close>; with none it is NumPy's global generator, whose state
  the draw advances. NumPy's generator is not part of this repository: \<open>RandomState\<close>
  and \<open>choice\<close> are parameters, and \<open>glob\<close> is the state of the global generator.
\<close>

definition take_rows :: "'a list \<Rightarrow> nat list \<Rightarrow> error + 'a list" where
  "take_rows df idx =
     (if list_all (\<lambda>i. i < length df) idx then Inr (map (\<lambda>i. df ! i) idx)
      else Inl IndexError)"

definition sample ::
  "(int \<Rightarrow> 'g) \<Rightarrow> ('g \<Rightarrow> nat \<Rightarrow> nat \<Rightarrow> nat list \<times> 'g) \<Rightarrow> 'g \<Rightarrow>
   'a list \<Rightarrow> nat \<Rightarrow> int option \<Rightarrow> (error + 'a list) \<times> 'g" where
  "sample RandomState choice glob df n random_state =
     (if length df < n
      then (Inl (ValueError ''Cannot take a larger sample than population''), glob)
      else
        (case random_state of
           Some seed \<Rightarrow> (take_rows df (fst (choice (RandomState seed) (length df) n)), glob)
         | None \<Rightarrow>
             (case choice glob (length df) n of (idx, glob') \<Rightarrow> (take_rows df idx, glob'))))"

definition distance_sample ::
  "(int \<Rightarrow> 'g) \<Rightarrow> ('g \<Rightarrow> nat \<Rightarrow> nat \<Rightarrow> nat list \<times> 'g) \<Rightarrow> 'g \<Rightarrow>
   trip list \<Rightarrow> (error + trip list) \<times> 'g" where
  "distance_sample RandomState choice glob df =
     (let sample_size = min 200000 (length df)
      in sample RandomState choice glob df sample_size (Some 42))"

text \<open>
  What NumPy documents of \<open>choice(N, size=n, replace=False)\<close> for \<open>n \<le> N\<close>: n distinct
  positions below N.
\<close>

definition choice_without_replacement :: "('g \<Rightarrow> nat \<Rightarrow> nat \<Rightarrow> nat list \<times> 'g) \<Rightarrow> bool" where
  "choice_without_replacement choice =
     (\<forall>g N n. n \<le> N \<longrightarrow>
        length (fst (choice g N n)) = n \<and> distinct (fst (choice g N n)) \<and>
        list_all (\<lambda>i. i < N) (fst (choice g N n)))"

section \<open>main, from the filter on (app.py, lines 181-321)\<close>

text \<open>
  The values of the sidebar widgets are arguments. The result is the sequence of
  Streamlit calls that carry data, each with the table it is given: the warning, the key
  metrics (unformatted), and the five charts. Titles, captions and dividers are left
  out. \<open>st.stop()\<close> ends the run, so the calls end with the warning; an exception ends
  it too, and is recorded as \<open>Raised\<close>.
\<close>

datatype st_call =
    StWarning string
  | KeyMetrics int rat rat rat rat
  | TopZonesChart "top_zone list"
  | FareByHourChart "fare_by_hour list"
  | DistanceHistogram "rat list"
  | PaymentPie "payment_count list"
  | HeatmapChart "heatmap_cell list"
  | Raised error

definition main ::
  "(int \<Rightarrow> 'g) \<Rightarrow> ('g \<Rightarrow> nat \<Rightarrow> nat \<Rightarrow> nat list \<times> 'g) \<Rightarrow> 'g \<Rightarrow>
   trip list \<Rightarrow> zone list \<Rightarrow> date \<Rightarrow> date \<Rightarrow> int \<Rightarrow> int \<Rightarrow> string list \<Rightarrow>
   st_call list \<times> 'g" where
  "main RandomState choice glob df_full df_zones start_date end_date hour_min hour_max
       selected_payments =
     (let df = apply_filters df_full start_date end_date hour_min hour_max selected_payments
      in if df = []
         then ([StWarning ''No data matches the current filters. Please adjust the sidebar.''],
               glob)
         else
           (let metrics = KeyMetrics (int (length df)) (mean (map fare_amount df))
                            (sum_list (map total_amount df)) (mean (map trip_distance df))
                            (mean (map trip_duration_minutes df));
                top_zones = agg_top_zones df df_zones;
                fare_by_hour = agg_fare_by_hour df
            in (case distance_sample RandomState choice glob df of
                  (Inl e, glob') \<Rightarrow>
                    ([metrics, TopZonesChart top_zones, FareByHourChart fare_by_hour, Raised e],
                     glob')
                | (Inr df_sample, glob') \<Rightarrow>
                    ([metrics, TopZonesChart top_zones, FareByHourChart fare_by_hour,
                      DistanceHistogram (map trip_distance df_sample),
                      PaymentPie (agg_payment_types df),
                      HeatmapChart (agg_heatmap df)],
                     glob'))))"

section \<open>load\_trip\_data (app.py, lines 11-18 and 33-40)\<close>

text \<open>
  The frame read from the parquet file: its columns in order, each a name and the cells
  of the column. \<open>NaN\<close> is pandas' missing value (NaN, NaT, None).
\<close>

datatype cell = IntCell int | NumCell rat | StrCell string | TimeCell timestamp | NaN

type_synonym series = "cell list"

type_synonym frame = "(string \<times> series) list"

text \<open>\<open>df[col]\<close> raises KeyError on an absent column.\<close>

definition getitem :: "frame \<Rightarrow> string \<Rightarrow> error + series" where
  "getitem df col = (case map_of df col of None \<Rightarrow> Inl (KeyError col) | Some s \<Rightarrow> Inr s)"

text \<open>
  \<open>df[col] = s\<close> replaces the column where it stands, or appends it as the last
  column.
\<close>

definition setitem :: "frame \<Rightarrow> string \<Rightarrow> series \<Rightarrow> frame" where
  "setitem df col s = AList.update col s df"

definition PAYMENT_MAP :: "(int \<times> string) list" where
  "PAYMENT_MAP =
     [(1, ''Credit Card''), (2, ''Cash''), (3, ''No Charge''), (4, ''Dispute''),
      (0, ''Unknown''), (6, ''Voided Trip'')]"

text \<open>
  \<open>Series.map(dict)\<close>: a cell that equals a key of the dictionary becomes the key's
  value, every other cell becomes NaN. An integer and a float of the same value are the
  same key in Python.
\<close>

definition dict_key :: "cell \<Rightarrow> int option" where
  "dict_key c =
     (case c of
        IntCell n \<Rightarrow> Some n
      | NumCell q \<Rightarrow> (if of_int (floor q) = q then Some (floor q) else None)
      | _ \<Rightarrow> None)"

definition map_dict :: "(int \<times> string) list \<Rightarrow> series \<Rightarrow> series" where
  "map_dict d s =
     map (\<lambda>c. case dict_key c of
                 None \<Rightarrow> NaN
               | Some k \<Rightarrow> (case map_of d k of None \<Rightarrow> NaN | Some v \<Rightarrow> StrCell v)) s"

definition fillna :: "series \<Rightarrow> cell \<Rightarrow> series" where
  "fillna s v = map (\<lambda>c. if c = NaN then v else c) s"

text \<open>
  \<open>pd.to_datetime\<close> is pandas' own parser, taken as the parameter \<open>to_datetime\<close>: it
  returns the converted column or raises. \<open>pd.read_parquet\<close> is input and output: the
  frame it returns is the argument \<open>df\<close>.
\<close>

definition convert_column ::
  "(series \<Rightarrow> error + series) \<Rightarrow> string \<Rightarrow> frame \<Rightarrow> error + frame" where
  "convert_column to_datetime col df =
     (case getitem df col of
        Inl e \<Rightarrow> Inl e
      | Inr s \<Rightarrow> (case to_datetime s of Inl e \<Rightarrow> Inl e | Inr s' \<Rightarrow> Inr (setitem df col s')))"

definition load_trip_data :: "(series \<Rightarrow> error + series) \<Rightarrow> frame \<Rightarrow> error + frame" where
  "load_trip_data to_datetime df =
     (case convert_column to_datetime ''tpep_pickup_datetime'' df of
        Inl e \<Rightarrow> Inl e
      | Inr df1 \<Rightarrow>
          (case convert_column to_datetime ''tpep_dropoff_datetime'' df1 of
             Inl e \<Rightarrow> Inl e
           | Inr df2 \<Rightarrow>
               (case getitem df2 ''payment_type'' of
                  Inl e \<Rightarrow> Inl e
                | Inr s \<Rightarrow>
                    Inr (setitem df2 ''payment_label''
                           (fillna (map_dict PAYMENT_MAP s) (StrCell ''Other''))))))"

text \<open>
  The label of the specification, in its words: the fixed table on the codes 1, 2, 3,
  4, 0 and 6, and "Other" for every other code.
\<close>

definition spec_payment_label :: "int \<Rightarrow> string" where
  "spec_payment_label code =
     (if code = 1 then ''Credit Card''
      else if code = 2 then ''Cash''
      else if code = 3 then ''No Charge''
      else if code = 4 then ''Dispute''
      else if code = 0 then ''Unknown''
      else if code = 6 then ''Voided Trip''
      else ''Other'')"

section \<open>Example data\<close>

text \<open>
  The scenario of the specification: three trips, (hour 5, fare 40, "Credit Card"),
  (hour 5, fare 20, "Cash") and (hour 17, fare 15, "Credit Card"), here on 10, 11 and 12
  January 2024, with pickup zones 161, 237 and 161.
\<close>

definition scenario_trip :: "int \<Rightarrow> int \<Rightarrow> rat \<Rightarrow> string \<Rightarrow> int \<Rightarrow> trip" where
  "scenario_trip d h fare label loc =
     \<lparr>tpep_pickup_datetime = \<lparr>ts_date = Date 2024 1 d, ts_nanos = 0\<rparr>,
      tpep_dropoff_datetime = \<lparr>ts_date = Date 2024 1 d, ts_nanos = 600\<rparr>,
      PULocationID = loc, fare_amount = fare, total_amount = fare + 2,
      trip_distance = 3, trip_duration_minutes = 10,
      pickup_hour = h, pickup_day_of_week = ''Monday'', payment_label = label\<rparr>"

definition scenario :: "trip list" where
  "scenario =
     [scenario_trip 10 5 40 ''Credit Card'' 161, scenario_trip 11 5 20 ''Cash'' 237,
      scenario_trip 12 17 15 ''Credit Card'' 161]"

definition scenario_zones :: "zone list" where
  "scenario_zones =
     [\<lparr>LocationID = 161, Zone = Some ''Midtown Center'', Borough = Some ''Manhattan''\<rparr>]"

text \<open>
  A stand-in for NumPy's generator, for the examples: it draws the last n positions,
  highest first, and counts its draws in its state.
\<close>

definition descending_choice :: "int \<Rightarrow> nat \<Rightarrow> nat \<Rightarrow> nat list \<times> int" where
  "descending_choice g N n = (take n (rev [0..<N]), g + 1)"

text \<open>
  A raw frame with the two timestamp columns and the payment code column only. Its codes
  are 1, 5 (not in the table), a missing value, the float 2.0 and 0.
\<close>

definition raw_timestamps :: series where
  "raw_timestamps =
     [TimeCell \<lparr>ts_date = Date 2024 1 10, ts_nanos = 0\<rparr>,
      TimeCell \<lparr>ts_date = Date 2024 1 11, ts_nanos = 0\<rparr>,
      TimeCell \<lparr>ts_date = Date 2024 1 12, ts_nanos = 0\<rparr>,
      TimeCell \<lparr>ts_date = Date 2024 1 13, ts_nanos = 0\<rparr>,
      TimeCell \<lparr>ts_date = Date 2024 1 14, ts_nanos = 0\<rparr>]"

definition raw_codes :: series where
  "raw_codes = [IntCell 1, IntCell 5, NaN, NumCell 2, IntCell 0]"

definition raw_frame :: frame where
  "raw_frame =
     [(''tpep_pickup_datetime'', raw_timestamps), (''tpep_dropoff_datetime'', raw_timestamps),
      (''payment_type'', raw_codes)]"

section \<open>Lemmas on masks\<close>

lemma series_and_map:
  "series_and (map p xs) (map q xs) = map (\<lambda>x. p x \<and> q x) xs"
  by (induction xs) (simp_all add: series_and_def)

lemma boolean_index_map:
  "boolean_index xs (map p xs) = filter p xs"
  by (induction xs) (simp_all add: boolean_index_def)

lemma isin_map:
  "isin (map f xs) vals = map (\<lambda>x. f x \<in> set vals) xs"
  by (simp add: isin_def)

lemma apply_filters_filter:
  "apply_filters df s e hmin hmax pts = filter (passes_criteria s e hmin hmax pts) df"
proof -
  have pc: "passes_criteria s e hmin hmax pts =
    (\<lambda>r. (((date_le s (dt_date (tpep_pickup_datetime r)) \<and>
             date_le (dt_date (tpep_pickup_datetime r)) e) \<and>
            hmin \<le> pickup_hour r) \<and> pickup_hour r \<le> hmax) \<and>
          (pts = [] \<or> payment_label r \<in> set pts))"
    by (auto simp: passes_criteria_def dt_date_def fun_eq_iff)
  show ?thesis
  proof (cases "pts = []")
    case True
    then show ?thesis
      unfolding pc apply_filters_def Let_def
      by (simp add: comp_def series_and_map boolean_index_map)
  next
    case False
    then show ?thesis
      unfolding pc apply_filters_def Let_def
      by (simp add: comp_def series_and_map isin_map boolean_index_map)
  qed
qed

lemma set_all_payment_types:
  "set (all_payment_types df) = payment_label ` set df"
  by (simp add: all_payment_types_def unique_def)

section \<open>Lemmas on grouping and sorting\<close>











section \<open>Lemmas on the aggregators\<close>














section \<open>Lemmas on the sample\<close>

lemma take_rows_ok:
  "list_all (\<lambda>i. i < length df) idx \<Longrightarrow> take_rows df idx = Inr (map (\<lambda>i. df ! i) idx)"
  by (simp add: take_rows_def)

lemma mset_positions_sub:
  assumes "distinct idx" and "list_all (\<lambda>i. i < n) idx"
  shows "mset idx \<subseteq># mset [0..<n]"
proof -
  from assms(2) have "set idx \<subseteq> set [0..<n]" by (auto simp: list_all_iff)
  then have "mset_set (set idx) \<subseteq># mset_set (set [0..<n])"
    by (intro subset_imp_msubset_mset_set) simp_all
  with assms(1) show ?thesis
    by (simp only: mset_set_set distinct_upt)
qed

lemma mset_take_rows_sub:
  assumes "distinct idx" and "list_all (\<lambda>i. i < length df) idx"
  shows "mset (map (\<lambda>i. df ! i) idx) \<subseteq># mset df"
proof -
  have "image_mset (\<lambda>i. df ! i) (mset idx) \<subseteq># image_mset (\<lambda>i. df ! i) (mset [0..<length df])"
    by (rule image_mset_subseteq_mono) (rule mset_positions_sub[OF assms])
  moreover have "image_mset (\<lambda>i. df ! i) (mset [0..<length df]) = mset df"
    by (simp only: mset_map[symmetric] map_nth)
  ultimately show ?thesis by (simp only: mset_map[symmetric])
qed

lemma mset_take_rows_all:
  assumes "distinct idx" and "list_all (\<lambda>i. i < length df) idx" and "length idx = length df"
  shows "mset (map (\<lambda>i. df ! i) idx) = mset df"
proof (rule ccontr)
  assume "mset (map (\<lambda>i. df ! i) idx) \<noteq> mset df"
  with mset_take_rows_sub[OF assms(1,2)]
  have "mset (map (\<lambda>i. df ! i) idx) \<subset># mset df"
    by (simp add: subset_mset.less_le)
  then have "size (mset (map (\<lambda>i. df ! i) idx)) < size (mset df)"
    by (rule mset_subset_size)
  with assms(3) show False by simp
qed

lemma distance_sample_seeded:
  "distance_sample RandomState choice glob df =
     (take_rows df (fst (choice (RandomState 42) (length df) (min 200000 (length df)))), glob)"
  by (simp add: distance_sample_def sample_def Let_def)

lemma descending_choice_ok: "choice_without_replacement descending_choice"
  unfolding choice_without_replacement_def descending_choice_def
  by (auto simp: list_all_iff dest: in_set_takeD)

section \<open>Lemmas on empty views\<close>

lemma groupby_size_empty: "groupby_size key [] = []"
  by (simp add: groupby_size_def)

lemma agg_top_zones_empty: "agg_top_zones [] zones = []"
  by (simp add: agg_top_zones_def groupby_size_empty merge_left_def nlargest_def)

lemma agg_fare_by_hour_empty: "agg_fare_by_hour [] = []"
  by (simp add: agg_fare_by_hour_def)

lemma agg_payment_types_empty: "agg_payment_types [] = []"
  by (simp add: agg_payment_types_def groupby_size_empty)

lemma agg_heatmap_empty: "agg_heatmap [] = []"
  by (simp add: agg_heatmap_def groupby_size_empty)

section \<open>Lemmas on the loader\<close>

lemma map_of_setitem: "map_of (setitem df col s) = (map_of df)(col \<mapsto> s)"
  by (simp add: setitem_def update_conv')

lemma getitem_Inr: "getitem df col = Inr s \<longleftrightarrow> map_of df col = Some s"
  by (simp add: getitem_def split: option.split)

lemma getitem_Inl: "map_of df col = None \<Longrightarrow> getitem df col = Inl (KeyError col)"
  by (simp add: getitem_def)

lemma convert_column_ok:
  "map_of df col = Some s \<Longrightarrow> to_datetime s = Inr s' \<Longrightarrow>
     convert_column to_datetime col df = Inr (setitem df col s')"
  by (simp add: convert_column_def getitem_def)

lemma convert_column_missing:
  "map_of df col = None \<Longrightarrow> convert_column to_datetime col df = Inl (KeyError col)"
  by (simp add: convert_column_def getitem_def)

lemma map_of_PAYMENT_MAP:
  "(case map_of PAYMENT_MAP k of None \<Rightarrow> ''Other'' | Some v \<Rightarrow> v) = spec_payment_label k"
  by (simp add: PAYMENT_MAP_def spec_payment_label_def)

lemma label_cell:
  "(\<lambda>c. if (case dict_key c of None \<Rightarrow> NaN
                | Some k \<Rightarrow> (case map_of PAYMENT_MAP k of None \<Rightarrow> NaN | Some v \<Rightarrow> StrCell v)) = NaN
          then StrCell ''Other''
          else (case dict_key c of None \<Rightarrow> NaN
                | Some k \<Rightarrow> (case map_of PAYMENT_MAP k of None \<Rightarrow> NaN | Some v \<Rightarrow> StrCell v)))
   = (\<lambda>c. StrCell (case dict_key c of None \<Rightarrow> ''Other'' | Some k \<Rightarrow> spec_payment_label k))"
  by (rule ext) (simp add: map_of_PAYMENT_MAP[symmetric] split: option.split)

lemma fillna_map_dict:
  "fillna (map_dict PAYMENT_MAP codes) (StrCell ''Other'') =
     map (\<lambda>c. StrCell (case dict_key c of None \<Rightarrow> ''Other'' | Some k \<Rightarrow> spec_payment_label k)) codes"
  by (simp add: fillna_def map_dict_def comp_def label_cell)

lemma load_trip_data_ok:
  assumes "map_of df ''tpep_pickup_datetime'' = Some p" and "to_datetime p = Inr p'"
    and "map_of df ''tpep_dropoff_datetime'' = Some d" and "to_datetime d = Inr d'"
    and "map_of df ''payment_type'' = Some codes"
  shows "load_trip_data to_datetime df =
           Inr (setitem (setitem (setitem df ''tpep_pickup_datetime'' p')
                            ''tpep_dropoff_datetime'' d')
                  ''payment_label''
                  (map (\<lambda>c. StrCell (case dict_key c of None \<Rightarrow> ''Other''
                                       | Some k \<Rightarrow> spec_payment_label k)) codes))"
proof -
  let ?df1 = "setitem df ''tpep_pickup_datetime'' p'"
  let ?df2 = "setitem ?df1 ''tpep_dropoff_datetime'' d'"
  have c1: "convert_column to_datetime ''tpep_pickup_datetime'' df = Inr ?df1"
    using assms(1,2) by (rule convert_column_ok)
  have "map_of ?df1 ''tpep_dropoff_datetime'' = Some d"
    using assms(3) by (simp add: map_of_setitem)
  then have c2: "convert_column to_datetime ''tpep_dropoff_datetime'' ?df1 = Inr ?df2"
    using assms(4) by (rule convert_column_ok)
  have "map_of ?df2 ''payment_type'' = Some codes"
    using assms(5) by (simp add: map_of_setitem)
  then have g: "getitem ?df2 ''payment_type'' = Inr codes"
    by (simp add: getitem_Inr)
  show ?thesis
    by (simp add: load_trip_data_def c1 c2 g fillna_map_dict)
qed

lemma load_trip_data_fails:
  assumes "map_of df ''tpep_pickup_datetime'' = None \<or> map_of df ''tpep_dropoff_datetime'' = None \<or>
           map_of df ''payment_type'' = None"
  shows "\<exists>e. load_trip_data to_datetime df = Inl e"
  using assms
  by (auto simp: load_trip_data_def convert_column_def getitem_def map_of_setitem
      split: option.splits sum.splits)

lemma load_trip_data_no_pickup:
  "map_of df ''tpep_pickup_datetime'' = None \<Longrightarrow>
     load_trip_data to_datetime df = Inl (KeyError ''tpep_pickup_datetime'')"
  by (simp add: load_trip_data_def convert_column_missing)

lemma load_trip_data_no_dropoff:
  assumes "map_of df ''tpep_pickup_datetime'' = Some p" and "to_datetime p = Inr p'"
    and "map_of df ''tpep_dropoff_datetime'' = None"
  shows "load_trip_data to_datetime df = Inl (KeyError ''tpep_dropoff_datetime'')"
proof -
  let ?df1 = "setitem df ''tpep_pickup_datetime'' p'"
  have c1: "convert_column to_datetime ''tpep_pickup_datetime'' df = Inr ?df1"
    using assms(1,2) by (rule convert_column_ok)
  have "map_of ?df1 ''tpep_dropoff_datetime'' = None"
    using assms(3) by (simp add: map_of_setitem)
  then have "convert_column to_datetime ''tpep_dropoff_datetime'' ?df1 =
               Inl (KeyError ''tpep_dropoff_datetime'')"
    by (rule convert_column_missing)
  with c1 show ?thesis by (simp add: load_trip_data_def)
qed

lemma load_trip_data_no_payment_type:
  assumes "map_of df ''tpep_pickup_datetime'' = Some p" and "to_datetime p = Inr p'"
    and "map_of df ''tpep_dropoff_datetime'' = Some d" and "to_datetime d = Inr d'"
    and "map_of df ''payment_type'' = None"
  shows "load_trip_data to_datetime df = Inl (KeyError ''payment_type'')"
proof -
  let ?df1 = "setitem df ''tpep_pickup_datetime'' p'"
  let ?df2 = "setitem ?df1 ''tpep_dropoff_datetime'' d'"
  have c1: "convert_column to_datetime ''tpep_pickup_datetime'' df = Inr ?df1"
    using assms(1,2) by (rule convert_column_ok)
  have "map_of ?df1 ''tpep_dropoff_datetime'' = Some d"
    using assms(3) by (simp add: map_of_setitem)
  then have c2: "convert_column to_datetime ''tpep_dropoff_datetime'' ?df1 = Inr ?df2"
    using assms(4) by (rule convert_column_ok)
  have "map_of ?df2 ''payment_type'' = None"
    using assms(5) by (simp add: map_of_setitem)
  then have g: "getitem ?df2 ''payment_type'' = Inl (KeyError ''payment_type'')"
    by (rule getitem_Inl)
  show ?thesis
    by (simp add: load_trip_data_def c1 c2 g)
qed

lemma map_of_Some_key: "map_of df col = Some s \<Longrightarrow> col \<in> fst ` set df"
  by (metis domI dom_map_of_conv_image_fst)

lemma columns_setitem: "fst ` set (setitem df col s) = insert col (fst ` set df)"
  by (simp add: setitem_def dom_update)

lemma raw_frame_lookups:
  "map_of raw_frame ''tpep_pickup_datetime'' = Some raw_timestamps"
  "map_of raw_frame ''tpep_dropoff_datetime'' = Some raw_timestamps"
  "map_of raw_frame ''payment_type'' = Some raw_codes"
  by (simp_all add: raw_frame_def)

lemma raw_frame_loaded:
  "load_trip_data Inr raw_frame =
     Inr [(''tpep_pickup_datetime'', raw_timestamps), (''tpep_dropoff_datetime'', raw_timestamps),
          (''payment_type'', raw_codes),
          (''payment_label'',
           [StrCell ''Credit Card'', StrCell ''Other'', StrCell ''Other'', StrCell ''Cash'',
            StrCell ''Unknown''])]"
proof -
  have b: "(Inr :: series \<Rightarrow> error + series) raw_timestamps = Inr raw_timestamps" by simp
  have c: "map (\<lambda>c. StrCell (case dict_key c of None \<Rightarrow> ''Other''
                                       | Some code \<Rightarrow> spec_payment_label code)) raw_codes =
       [StrCell ''Credit Card'', StrCell ''Other'', StrCell ''Other'', StrCell ''Cash'',
             StrCell ''Unknown'']"
    by (simp add: raw_codes_def dict_key_def spec_payment_label_def)
  show ?thesis
    unfolding load_trip_data_ok [where to_datetime = Inr and df = raw_frame,
        OF raw_frame_lookups(1) b raw_frame_lookups(2) b raw_frame_lookups(3)] c
    by (simp add: setitem_def raw_frame_def)
qed

section \<open>The filter\<close>

text \<open>
  C1. A record of the trip set is in the output of \<open>apply_filters\<close> exactly when its
  pickup date lies in [start\_date, end\_date], its pickup hour lies in [hour\_min,
  hour\_max] and the label list is empty or holds its label; the output is the
  subsequence of the passing records, in their original order.
\<close>

theorem apply_filters_spec:
  "apply_filters df s e hmin hmax pts = filter (passes_criteria s e hmin hmax pts) df \<and>
   (\<forall>r. r \<in> set (apply_filters df s e hmin hmax pts) \<longleftrightarrow>
        r \<in> set df \<and> passes_criteria s e hmin hmax pts r)"
  by (simp add: apply_filters_filter)

text \<open>
  The second scenario of the specification: with hours 6 to 23 only the trip of hour 17
  is left.
\<close>

theorem apply_filters_spec_witness:
  "apply_filters scenario (Date 2024 1 1) (Date 2024 1 31) 6 23 [] =
     [scenario_trip 12 17 15 ''Credit Card'' 161]"
  using apply_filters_spec [of scenario "Date 2024 1 1" "Date 2024 1 31" 6 23 "[]"]
  by (simp add: scenario_def passes_criteria_def scenario_trip_def date_le_def)

text \<open>
  C2. With an empty label list \<open>apply_filters\<close> returns the same rows as with the list
  of all labels present in the data, which is what the payment multiselect offers.
\<close>

theorem apply_filters_empty_means_all:
  "apply_filters df s e hmin hmax [] = apply_filters df s e hmin hmax (all_payment_types df)"
proof -
  have "passes_criteria s e hmin hmax [] r = passes_criteria s e hmin hmax (all_payment_types df) r"
    if "r \<in> set df" for r
    using that by (simp add: passes_criteria_def set_all_payment_types)
  then have "filter (passes_criteria s e hmin hmax []) df =
             filter (passes_criteria s e hmin hmax (all_payment_types df)) df"
    by (simp cong: filter_cong)
  then show ?thesis by (simp only: apply_filters_filter)
qed

theorem apply_filters_empty_means_all_witness:
  "all_payment_types scenario = [''Cash'', ''Credit Card''] \<and>
   apply_filters scenario (Date 2024 1 1) (Date 2024 1 11) 0 23 [] =
     apply_filters scenario (Date 2024 1 1) (Date 2024 1 11) 0 23 [''Cash'', ''Credit Card''] \<and>
   apply_filters scenario (Date 2024 1 1) (Date 2024 1 11) 0 23 [] =
     [scenario_trip 10 5 40 ''Credit Card'' 161, scenario_trip 11 5 20 ''Cash'' 237]"
proof -
  have a: "all_payment_types scenario = [''Cash'', ''Credit Card'']"
    by code_simp
  have b: "apply_filters scenario (Date 2024 1 1) (Date 2024 1 11) 0 23 [] =
     [scenario_trip 10 5 40 ''Credit Card'' 161, scenario_trip 11 5 20 ''Cash'' 237]"
    by (simp add: apply_filters_filter scenario_def passes_criteria_def scenario_trip_def
        date_le_def)
  show ?thesis
    using apply_filters_empty_means_all [of scenario "Date 2024 1 1" "Date 2024 1 11" 0 23] a b
    by simp
qed

text \<open>
  C9. \<open>apply_filters\<close> is idempotent: filtering a filtered view again with the same
  criteria returns the same view.
\<close>

theorem apply_filters_idempotent:
  "apply_filters (apply_filters df s e hmin hmax pts) s e hmin hmax pts =
     apply_filters df s e hmin hmax pts"
  by (simp add: apply_filters_filter)

theorem apply_filters_idempotent_witness:
  "apply_filters (apply_filters scenario (Date 2024 1 11) (Date 2024 1 31) 0 12 [''Cash''])
       (Date 2024 1 11) (Date 2024 1 31) 0 12 [''Cash''] =
     [scenario_trip 11 5 20 ''Cash'' 237]"
proof -
  have "apply_filters scenario (Date 2024 1 11) (Date 2024 1 31) 0 12 [''Cash''] =
     [scenario_trip 11 5 20 ''Cash'' 237]"
    by (simp add: apply_filters_filter scenario_def passes_criteria_def scenario_trip_def
        date_le_def)
  then show ?thesis
    using apply_filters_idempotent [of scenario "Date 2024 1 11" "Date 2024 1 31" 0 12 "[''Cash'']"]
    by simp
qed

section \<open>The aggregators\<close>







section \<open>The distance sample\<close>

text \<open>
  C6. For a generator that draws without replacement, the sample of a view consists of the
  rows at the positions drawn by a fresh generator of seed 42. A view of more than
  200000 rows gives exactly 200000 of its rows; a view of at most 200000 rows gives all
  of its rows, each as often as in the view. The sample does not depend on the state of
  the global generator, and leaves it unchanged: any two invocations on the same view
  give the same sample.
\<close>

theorem distance_sample_spec:
  assumes "choice_without_replacement choice"
  shows "\<exists>s. distance_sample RandomState choice glob df = (Inr s, glob) \<and>
           s = map (\<lambda>i. df ! i)
                 (fst (choice (RandomState 42) (length df) (min 200000 (length df)))) \<and>
           length s = min 200000 (length df) \<and>
           mset s \<subseteq># mset df \<and>
           (200000 < length df \<longrightarrow> length s = 200000) \<and>
           (length df \<le> 200000 \<longrightarrow> mset s = mset df) \<and>
           (\<forall>glob'. fst (distance_sample RandomState choice glob' df) = Inr s)"
proof -
  let ?n = "min 200000 (length df)"
  let ?idx = "fst (choice (RandomState 42) (length df) ?n)"
  let ?s = "map (\<lambda>i. df ! i) ?idx"
  have n: "?n \<le> length df" by simp
  from assms n have len: "length ?idx = ?n" and dist: "distinct ?idx"
    and rng: "list_all (\<lambda>i. i < length df) ?idx"
    unfolding choice_without_replacement_def by blast+
  have run: "distance_sample RandomState choice g df = (Inr ?s, g)" for g
    unfolding distance_sample_seeded using rng by (simp only: take_rows_ok)
  have l: "length ?s = ?n" using len by simp
  have sub: "mset ?s \<subseteq># mset df" by (rule mset_take_rows_sub[OF dist rng])
  have big: "200000 < length df \<longrightarrow> length ?s = 200000"
  proof
    assume "200000 < length df"
    then have "?n = 200000" by simp
    with l show "length ?s = 200000" by (simp only:)
  qed
  have small: "length df \<le> 200000 \<longrightarrow> mset ?s = mset df"
  proof
    assume "length df \<le> 200000"
    with len have "length ?idx = length df" by simp
    with dist rng show "mset ?s = mset df" by (rule mset_take_rows_all)
  qed
  have rep: "\<forall>glob'. fst (distance_sample RandomState choice glob' df) = Inr ?s"
    by (simp only: run fst_conv) simp
  from run[of glob] l sub big small rep show ?thesis by blast
qed

theorem distance_sample_spec_witness:
  "choice_without_replacement descending_choice \<and>
   distance_sample (\<lambda>seed. seed) descending_choice 7 scenario =
     (Inr (rev scenario), 7) \<and>
   (\<exists>s. fst (distance_sample (\<lambda>seed. seed) descending_choice 7
              (replicate 200001 (scenario_trip 10 5 40 ''Credit Card'' 161))) = Inr s \<and>
        length s = 200000)"
proof -
  have a: "map (\<lambda>i. scenario ! i) (fst (descending_choice 42 (length scenario)
             (min 200000 (length scenario)))) = rev scenario"
    by (simp add: descending_choice_def scenario_def upt_rec)
  have b: "(200000::nat) < length (replicate 200001 (scenario_trip 10 5 40 ''Credit Card'' 161))"
    by simp
  from distance_sample_spec [OF descending_choice_ok, of "\<lambda>seed. seed" 7 scenario]
  have c: "distance_sample (\<lambda>seed. seed) descending_choice 7 scenario = (Inr (rev scenario), 7)"
    unfolding a by blast
  from distance_sample_spec [OF descending_choice_ok, of "\<lambda>seed. seed" 7
      "replicate 200001 (scenario_trip 10 5 40 ''Credit Card'' 161)"] b
  have d: "\<exists>s. fst (distance_sample (\<lambda>seed. seed) descending_choice 7
              (replicate 200001 (scenario_trip 10 5 40 ''Credit Card'' 161))) = Inr s \<and>
        length s = 200000"
    by (metis fst_conv)
  from descending_choice_ok c d show ?thesis by blast
qed

section \<open>The empty view\<close>

text \<open>
  C7, as the claim states it, fails on the code: no aggregator raises on a view of zero
  rows. Each returns the empty table.
\<close>

theorem aggregators_return_on_empty_view:
  "agg_fare_by_hour [] = [] \<and> agg_payment_types [] = [] \<and> agg_heatmap [] = [] \<and>
   agg_top_zones [] scenario_zones = []"
  by (simp add: agg_fare_by_hour_empty agg_payment_types_empty agg_heatmap_empty
      agg_top_zones_empty)

text \<open>
  C7, amended. When the filtered view is empty, \<open>main\<close> shows the "No data matches"
  warning and stops: it makes no other call and invokes no aggregator. The aggregators
  themselves return the empty table on a view of zero rows.
\<close>

theorem main_empty_view:
  "(apply_filters df_full s e hmin hmax pts = [] \<longrightarrow>
      main RandomState choice glob df_full df_zones s e hmin hmax pts =
        ([StWarning ''No data matches the current filters. Please adjust the sidebar.''], glob)) \<and>
   agg_top_zones [] df_zones = [] \<and> agg_fare_by_hour [] = [] \<and>
   agg_payment_types [] = [] \<and> agg_heatmap [] = []"
  by (simp add: main_def Let_def agg_fare_by_hour_empty agg_payment_types_empty
      agg_heatmap_empty agg_top_zones_empty)

theorem main_empty_view_witness:
  "apply_filters scenario (Date 2024 1 1) (Date 2024 1 31) 0 3 [] = [] \<and>
   main (\<lambda>seed. seed) descending_choice 7 scenario scenario_zones
        (Date 2024 1 1) (Date 2024 1 31) 0 3 [] =
     ([StWarning ''No data matches the current filters. Please adjust the sidebar.''], 7)"
proof -
  have "apply_filters scenario (Date 2024 1 1) (Date 2024 1 31) 0 3 [] = []"
    by (simp add: apply_filters_filter scenario_def passes_criteria_def scenario_trip_def
        date_le_def)
  then show ?thesis
    using main_empty_view [of scenario "Date 2024 1 1" "Date 2024 1 31" 0 3 "[]"
        "\<lambda>seed. seed" descending_choice 7 scenario_zones]
    by simp
qed

section \<open>The loader\<close>

text \<open>
  C3. When the frame has the three columns the loader reads and its timestamp columns
  convert, \<open>load_trip_data\<close> succeeds whatever the payment codes are, and the label of
  every row is the entry of the fixed table for its code, and "Other" for a code that is
  not in the table or is no code at all.
\<close>

theorem load_trip_data_payment_label:
  assumes "map_of df ''tpep_pickup_datetime'' = Some p" and "to_datetime p = Inr p'"
    and "map_of df ''tpep_dropoff_datetime'' = Some d" and "to_datetime d = Inr d'"
    and "map_of df ''payment_type'' = Some codes"
  shows "\<exists>df'. load_trip_data to_datetime df = Inr df' \<and>
           map_of df' ''payment_label'' =
             Some (map (\<lambda>c. StrCell (case dict_key c of None \<Rightarrow> ''Other''
                                       | Some code \<Rightarrow> spec_payment_label code)) codes) \<and>
           (\<forall>code. spec_payment_label code =
                     (case map_of PAYMENT_MAP code of None \<Rightarrow> ''Other'' | Some v \<Rightarrow> v))"
  unfolding load_trip_data_ok[OF assms]
  by (simp add: map_of_setitem map_of_PAYMENT_MAP)

theorem load_trip_data_payment_label_witness:
  "\<exists>df'. load_trip_data Inr raw_frame = Inr df' \<and>
     map_of df' ''payment_label'' =
       Some [StrCell ''Credit Card'', StrCell ''Other'', StrCell ''Other'', StrCell ''Cash'',
             StrCell ''Unknown'']"
proof -
  have a: "map_of raw_frame ''tpep_pickup_datetime'' = Some raw_timestamps"
    "map_of raw_frame ''tpep_dropoff_datetime'' = Some raw_timestamps"
    "map_of raw_frame ''payment_type'' = Some raw_codes"
    by (simp_all add: raw_frame_def)
  have b: "(Inr :: series \<Rightarrow> error + series) raw_timestamps = Inr raw_timestamps" by simp
  have c: "map (\<lambda>c. StrCell (case dict_key c of None \<Rightarrow> ''Other''
                                       | Some code \<Rightarrow> spec_payment_label code)) raw_codes =
       [StrCell ''Credit Card'', StrCell ''Other'', StrCell ''Other'', StrCell ''Cash'',
             StrCell ''Unknown'']"
    by (simp add: raw_codes_def dict_key_def spec_payment_label_def)
  show ?thesis
    using load_trip_data_payment_label
      [where to_datetime = Inr and df = raw_frame, OF a(1) b a(2) b a(3)]
    unfolding c by blast
qed

text \<open>
  C8, as the claim states it, fails on the code: a frame with all the required raw
  columns comes back with \<open>payment_label\<close> as its only new column. The pickup hour and
  the day of the week are not derived by the loader.
\<close>

theorem load_trip_data_derives_label_only:
  "\<exists>df'. load_trip_data Inr raw_frame = Inr df' \<and>
     map fst raw_frame = [''tpep_pickup_datetime'', ''tpep_dropoff_datetime'', ''payment_type''] \<and>
     map fst df' = [''tpep_pickup_datetime'', ''tpep_dropoff_datetime'', ''payment_type'',
                    ''payment_label''] \<and>
     map_of df' ''pickup_hour'' = None \<and> map_of df' ''pickup_day_of_week'' = None"
proof (intro exI conjI)
  show "load_trip_data Inr raw_frame =
     Inr [(''tpep_pickup_datetime'', raw_timestamps), (''tpep_dropoff_datetime'', raw_timestamps),
          (''payment_type'', raw_codes),
          (''payment_label'',
           [StrCell ''Credit Card'', StrCell ''Other'', StrCell ''Other'', StrCell ''Cash'',
            StrCell ''Unknown''])]"
    by (rule raw_frame_loaded)
  show "map fst raw_frame = [''tpep_pickup_datetime'', ''tpep_dropoff_datetime'', ''payment_type'']"
    by (simp add: raw_frame_def)
  show "map fst [(''tpep_pickup_datetime'', raw_timestamps), (''tpep_dropoff_datetime'', raw_timestamps),
          (''payment_type'', raw_codes),
          (''payment_label'',
           [StrCell ''Credit Card'', StrCell ''Other'', StrCell ''Other'', StrCell ''Cash'',
            StrCell ''Unknown''])] =
     [''tpep_pickup_datetime'', ''tpep_dropoff_datetime'', ''payment_type'', ''payment_label'']"
    by simp
  show "map_of [(''tpep_pickup_datetime'', raw_timestamps), (''tpep_dropoff_datetime'', raw_timestamps),
          (''payment_type'', raw_codes),
          (''payment_label'',
           [StrCell ''Credit Card'', StrCell ''Other'', StrCell ''Other'', StrCell ''Cash'',
            StrCell ''Unknown''])] ''pickup_hour'' = None"
    by simp
  show "map_of [(''tpep_pickup_datetime'', raw_timestamps), (''tpep_dropoff_datetime'', raw_timestamps),
          (''payment_type'', raw_codes),
          (''payment_label'',
           [StrCell ''Credit Card'', StrCell ''Other'', StrCell ''Other'', StrCell ''Cash'',
            StrCell ''Unknown''])] ''pickup_day_of_week'' = None"
    by simp
qed

text \<open>
  C8, amended. When one of the columns \<open>tpep_pickup_datetime\<close>,
  \<open>tpep_dropoff_datetime\<close> and \<open>payment_type\<close> is absent, \<open>load_trip_data\<close> fails and
  returns no frame; the error is the KeyError of the first absent column when the
  timestamp columns before it convert. When all three are present and the timestamp
  columns convert, it returns the frame with the two timestamp columns converted, the
  label column added, and every other column as it was.
\<close>

theorem load_trip_data_columns:
  "(map_of df ''tpep_pickup_datetime'' = None \<or> map_of df ''tpep_dropoff_datetime'' = None \<or>
    map_of df ''payment_type'' = None \<longrightarrow>
      (\<exists>e. load_trip_data to_datetime df = Inl e)) \<and>
   (map_of df ''tpep_pickup_datetime'' = None \<longrightarrow>
      load_trip_data to_datetime df = Inl (KeyError ''tpep_pickup_datetime'')) \<and>
   (map_of df ''tpep_pickup_datetime'' = Some p \<and> to_datetime p = Inr p' \<and>
    map_of df ''tpep_dropoff_datetime'' = None \<longrightarrow>
      load_trip_data to_datetime df = Inl (KeyError ''tpep_dropoff_datetime'')) \<and>
   (map_of df ''tpep_pickup_datetime'' = Some p \<and> to_datetime p = Inr p' \<and>
    map_of df ''tpep_dropoff_datetime'' = Some d \<and> to_datetime d = Inr d' \<and>
    map_of df ''payment_type'' = None \<longrightarrow>
      load_trip_data to_datetime df = Inl (KeyError ''payment_type'')) \<and>
   (map_of df ''tpep_pickup_datetime'' = Some p \<and> to_datetime p = Inr p' \<and>
    map_of df ''tpep_dropoff_datetime'' = Some d \<and> to_datetime d = Inr d' \<and>
    map_of df ''payment_type'' = Some codes \<longrightarrow>
      (\<exists>df'. load_trip_data to_datetime df = Inr df' \<and>
         map_of df' ''tpep_pickup_datetime'' = Some p' \<and>
         map_of df' ''tpep_dropoff_datetime'' = Some d' \<and>
         map_of df' ''payment_label'' =
           Some (map (\<lambda>c. StrCell (case dict_key c of None \<Rightarrow> ''Other''
                                     | Some code \<Rightarrow> spec_payment_label code)) codes) \<and>
         (\<forall>col. col \<noteq> ''tpep_pickup_datetime'' \<and> col \<noteq> ''tpep_dropoff_datetime'' \<and>
                col \<noteq> ''payment_label'' \<longrightarrow> map_of df' col = map_of df col) \<and>
         fst ` set df' = insert ''payment_label'' (fst ` set df)))"
proof (intro conjI impI)
  assume "map_of df ''tpep_pickup_datetime'' = None \<or> map_of df ''tpep_dropoff_datetime'' = None \<or>
    map_of df ''payment_type'' = None"
  then show "\<exists>e. load_trip_data to_datetime df = Inl e"
    by (rule load_trip_data_fails)
next
  assume "map_of df ''tpep_pickup_datetime'' = None"
  then show "load_trip_data to_datetime df = Inl (KeyError ''tpep_pickup_datetime'')"
    by (rule load_trip_data_no_pickup)
next
  assume "map_of df ''tpep_pickup_datetime'' = Some p \<and> to_datetime p = Inr p' \<and>
    map_of df ''tpep_dropoff_datetime'' = None"
  then show "load_trip_data to_datetime df = Inl (KeyError ''tpep_dropoff_datetime'')"
    using load_trip_data_no_dropoff by blast
next
  assume "map_of df ''tpep_pickup_datetime'' = Some p \<and> to_datetime p = Inr p' \<and>
    map_of df ''tpep_dropoff_datetime'' = Some d \<and> to_datetime d = Inr d' \<and>
    map_of df ''payment_type'' = None"
  then show "load_trip_data to_datetime df = Inl (KeyError ''payment_type'')"
    using load_trip_data_no_payment_type by blast
next
  assume a: "map_of df ''tpep_pickup_datetime'' = Some p \<and> to_datetime p = Inr p' \<and>
    map_of df ''tpep_dropoff_datetime'' = Some d \<and> to_datetime d = Inr d' \<and>
    map_of df ''payment_type'' = Some codes"
  let ?labels = "map (\<lambda>c. StrCell (case dict_key c of None \<Rightarrow> ''Other''
                                     | Some code \<Rightarrow> spec_payment_label code)) codes"
  let ?df' = "setitem (setitem (setitem df ''tpep_pickup_datetime'' p')
                            ''tpep_dropoff_datetime'' d') ''payment_label'' ?labels"
  from a have run: "load_trip_data to_datetime df = Inr ?df'"
    using load_trip_data_ok by blast
  have m: "map_of ?df' = (map_of df)(''tpep_pickup_datetime'' \<mapsto> p',
             ''tpep_dropoff_datetime'' \<mapsto> d', ''payment_label'' \<mapsto> ?labels)"
    by (simp only: map_of_setitem)
  from a have "''tpep_pickup_datetime'' \<in> fst ` set df" "''tpep_dropoff_datetime'' \<in> fst ` set df"
    by (auto dest: map_of_Some_key)
  then have c: "fst ` set ?df' = insert ''payment_label'' (fst ` set df)"
    unfolding columns_setitem by blast
  show "\<exists>df'. load_trip_data to_datetime df = Inr df' \<and>
         map_of df' ''tpep_pickup_datetime'' = Some p' \<and>
         map_of df' ''tpep_dropoff_datetime'' = Some d' \<and>
         map_of df' ''payment_label'' = Some ?labels \<and>
         (\<forall>col. col \<noteq> ''tpep_pickup_datetime'' \<and> col \<noteq> ''tpep_dropoff_datetime'' \<and>
                col \<noteq> ''payment_label'' \<longrightarrow> map_of df' col = map_of df col) \<and>
         fst ` set df' = insert ''payment_label'' (fst ` set df)"
    unfolding run using c by (simp add: m)
qed

theorem load_trip_data_columns_witness:
  "load_trip_data Inr [(''tpep_pickup_datetime'', raw_timestamps),
                       (''tpep_dropoff_datetime'', raw_timestamps)] =
     Inl (KeyError ''payment_type'') \<and>
   (\<exists>df'. load_trip_data Inr raw_frame = Inr df' \<and>
      map_of df' ''payment_type'' = Some raw_codes \<and>
      fst ` set df' = {''payment_label'', ''tpep_pickup_datetime'', ''tpep_dropoff_datetime'',
                       ''payment_type''})"
proof -
  let ?short = "[(''tpep_pickup_datetime'', raw_timestamps),
                 (''tpep_dropoff_datetime'', raw_timestamps)]"
  have b: "(Inr :: series \<Rightarrow> error + series) raw_timestamps = Inr raw_timestamps" by simp
  have s1: "map_of ?short ''tpep_pickup_datetime'' = Some raw_timestamps" by simp
  have s2: "map_of ?short ''tpep_dropoff_datetime'' = Some raw_timestamps" by simp
  have s3: "map_of ?short ''payment_type'' = None" by simp
  have 1: "load_trip_data Inr ?short = Inl (KeyError ''payment_type'')"
    by (rule load_trip_data_columns [of ?short Inr raw_timestamps raw_timestamps
          raw_timestamps raw_timestamps,
          THEN conjunct2, THEN conjunct2, THEN conjunct2, THEN conjunct1, THEN mp])
       (intro conjI s1 s2 s3 b)
  have "\<exists>df'. load_trip_data Inr raw_frame = Inr df' \<and>
         map_of df' ''tpep_pickup_datetime'' = Some raw_timestamps \<and>
         map_of df' ''tpep_dropoff_datetime'' = Some raw_timestamps \<and>
         map_of df' ''payment_label'' =
           Some (map (\<lambda>c. StrCell (case dict_key c of None \<Rightarrow> ''Other''
                                     | Some code \<Rightarrow> spec_payment_label code)) raw_codes) \<and>
         (\<forall>col. col \<noteq> ''tpep_pickup_datetime'' \<and> col \<noteq> ''tpep_dropoff_datetime'' \<and>
                col \<noteq> ''payment_label'' \<longrightarrow> map_of df' col = map_of raw_frame col) \<and>
         fst ` set df' = insert ''payment_label'' (fst ` set raw_frame)"
    by (rule load_trip_data_columns [of raw_frame Inr raw_timestamps raw_timestamps
          raw_timestamps raw_timestamps raw_codes,
          THEN conjunct2, THEN conjunct2, THEN conjunct2, THEN conjunct2, THEN mp])
       (intro conjI raw_frame_lookups b)
  then obtain df' where run: "load_trip_data Inr raw_frame = Inr df'"
    and same: "\<forall>col. col \<noteq> ''tpep_pickup_datetime'' \<and> col \<noteq> ''tpep_dropoff_datetime'' \<and>
                col \<noteq> ''payment_label'' \<longrightarrow> map_of df' col = map_of raw_frame col"
    and cols: "fst ` set df' = insert ''payment_label'' (fst ` set raw_frame)"
    by blast
  have ne: "''payment_type'' \<noteq> ''tpep_pickup_datetime'' \<and>
            ''payment_type'' \<noteq> ''tpep_dropoff_datetime'' \<and>
            ''payment_type'' \<noteq> ''payment_label''"
    by simp
  have "map_of df' ''payment_type'' = map_of raw_frame ''payment_type''"
    by (rule same[THEN spec, THEN mp, OF ne])
  then have pt: "map_of df' ''payment_type'' = Some raw_codes"
    by (simp only: raw_frame_lookups)
  have "fst ` set raw_frame = {''tpep_pickup_datetime'', ''tpep_dropoff_datetime'',
                       ''payment_type''}"
    by (simp add: raw_frame_def)
  with cols have cs: "fst ` set df' = {''payment_label'', ''tpep_pickup_datetime'',
      ''tpep_dropoff_datetime'', ''payment_type''}"
    by (simp only:)
  from run pt cs have 2: "\<exists>df'. load_trip_data Inr raw_frame = Inr df' \<and>
      map_of df' ''payment_type'' = Some raw_codes \<and>
      fst ` set df' = {''payment_label'', ''tpep_pickup_datetime'', ''tpep_dropoff_datetime'',
                       ''payment_type''}"
    by (intro exI[of _ df'] conjI)
  from 1 2 show ?thesis by (rule conjI)
qed

end
